theory Spec2Isabelle
  imports Complex_Main "HOL-Library.AList"
begin

section \<open>The environment manager of \<^verbatim>\<open>ai_filmmaking/environment_manager.py\<close>\<close>

text \<open>
  The class \<^verbatim>\<open>EnvironmentManager\<close> keeps two dictionaries, \<^verbatim>\<open>character_positions\<close>
  and \<^verbatim>\<open>camera_angles\<close>. A Python dictionary iterates in insertion order and an
  assignment to an existing key keeps the key's place, which is what \<open>AList.update\<close> does on
  an association list; a lookup is \<open>map_of\<close>.

  Angles are Python numbers (ints or floats). They are modelled as exact reals: the rounding
  of IEEE doubles is not part of this model.
\<close>

subsection \<open>Python arithmetic\<close>

definition py_mod360 :: "real \<Rightarrow> real" where
  \<comment> \<open>\<^verbatim>\<open>x % 360\<close>: the result has the sign of the (positive) divisor.\<close>
  "py_mod360 x = x - 360 * of_int \<lfloor>x / 360\<rfloor>"

definition py_int :: "real \<Rightarrow> int" where
  \<comment> \<open>\<^verbatim>\<open>int(x)\<close> on a float truncates towards zero.\<close>
  "py_int x = (if 0 \<le> x then \<lfloor>x\<rfloor> else \<lceil>x\<rceil>)"

subsection \<open>The registry\<close>

record position =
  angle :: real
  depth :: real

record camera =
  cam_angle :: real
  fov :: real
  visible_range :: "real \<times> real"

record env =
  character_positions :: "(string \<times> position) list"
  camera_angles :: "(string \<times> camera) list"

definition init_env :: env where
  \<comment> \<open>\<^verbatim>\<open>__init__\<close>: both dictionaries start empty.\<close>
  "init_env = \<lparr>character_positions = [], camera_angles = []\<rparr>"

definition register_character_position :: "string \<Rightarrow> real \<Rightarrow> real \<Rightarrow> env \<Rightarrow> env" where
  \<comment> \<open>The default \<^verbatim>\<open>depth=1.0\<close> is the caller passing 1.\<close>
  "register_character_position character_name angle_degrees dpt s =
     s\<lparr>character_positions :=
         AList.update character_name
           \<lparr>angle = py_mod360 angle_degrees, depth = dpt\<rparr>
           (character_positions s)\<rparr>"

definition register_camera_angle :: "string \<Rightarrow> real \<Rightarrow> real \<Rightarrow> env \<Rightarrow> env" where
  \<comment> \<open>The default \<^verbatim>\<open>field_of_view=60\<close> is the caller passing 60.\<close>
  "register_camera_angle scene_id ang field_of_view s =
     (let visible_start = py_mod360 (ang - field_of_view / 2);
          visible_end = py_mod360 (ang + field_of_view / 2)
      in s\<lparr>camera_angles :=
             AList.update scene_id
               \<lparr>cam_angle = py_mod360 ang, fov = field_of_view,
                visible_range = (visible_start, visible_end)\<rparr>
               (camera_angles s)\<rparr>)"

subsection \<open>Visibility\<close>

fun visible_loop :: "real \<Rightarrow> real \<Rightarrow> (string \<times> position) list \<Rightarrow> string list \<Rightarrow> string list" where
  "visible_loop start_angle end_angle [] visible_chars = visible_chars"
| "visible_loop start_angle end_angle ((char_name, pos) # rest) visible_chars =
     (let char_angle = angle pos in
      if start_angle \<le> end_angle then
        (if start_angle \<le> char_angle \<and> char_angle \<le> end_angle
         then visible_loop start_angle end_angle rest (visible_chars @ [char_name])
         else visible_loop start_angle end_angle rest visible_chars)
      else
        (if char_angle \<ge> start_angle \<or> char_angle \<le> end_angle
         then visible_loop start_angle end_angle rest (visible_chars @ [char_name])
         else visible_loop start_angle end_angle rest visible_chars))"

definition get_visible_characters :: "env \<Rightarrow> string \<Rightarrow> string list" where
  "get_visible_characters s scene_id =
     (case map_of (camera_angles s) scene_id of
        None \<Rightarrow> []
      | Some cam \<Rightarrow>
          (case visible_range cam of (start_angle, end_angle) \<Rightarrow>
             visible_loop start_angle end_angle (character_positions s) []))"

subsection \<open>The invariant of the registry\<close>

definition env_ok :: "env \<Rightarrow> bool" where
  \<comment> \<open>What every registry built by registrations satisfies: keys are unique (they are
      dictionary keys) and every stored angle is normalised.\<close>
  "env_ok s \<longleftrightarrow>
     distinct (map fst (character_positions s)) \<and>
     distinct (map fst (camera_angles s)) \<and>
     list_all (\<lambda>(n, p). 0 \<le> angle p \<and> angle p < 360) (character_positions s) \<and>
     list_all (\<lambda>(i, c). 0 \<le> cam_angle c \<and> cam_angle c < 360 \<and>
                 0 \<le> fst (visible_range c) \<and> fst (visible_range c) < 360 \<and>
                 0 \<le> snd (visible_range c) \<and> snd (visible_range c) < 360) (camera_angles s)"

subsection \<open>The test of the loop body, as a predicate\<close>

definition in_view :: "real \<Rightarrow> real \<Rightarrow> real \<Rightarrow> bool" where
  \<comment> \<open>The condition under which the loop of \<open>get_visible_characters\<close> appends a name.\<close>
  "in_view start_angle end_angle char_angle \<longleftrightarrow>
     (if start_angle \<le> end_angle
      then start_angle \<le> char_angle \<and> char_angle \<le> end_angle
      else char_angle \<ge> start_angle \<or> char_angle \<le> end_angle)"

subsection \<open>Images and the Pillow operations the extraction uses\<close>

text \<open>
  \<^verbatim>\<open>extract_camera_view\<close> opens the panorama with Pillow and crops it. An image is its
  mode, its size \<open>(width, height)\<close> and its pixels by column and row. The pixel type is left
  open; the two things Pillow does to a pixel value here are parameters of the model:
  \<open>fill\<close>, the zero pixel of a mode (a new image, and the part of a crop box outside the
  source), and \<open>convert\<close>, the conversion \<^verbatim>\<open>paste\<close> applies when the modes of source
  and destination differ. \<^verbatim>\<open>crop\<close> rejects a box whose right edge is left of its left edge
  (or lower above upper) with a \<^verbatim>\<open>ValueError\<close>.

  The argument \<open>opened\<close> of \<open>extract_camera_view\<close> is the outcome of
  \<^verbatim>\<open>Image.open(panorama_path)\<close>; the function returns the image it saves (the file name
  it builds and the write to disk are not modelled).
\<close>

datatype error = ValueError | OSError












section \<open>Properties\<close>

subsection \<open>Arithmetic of \<^verbatim>\<open>% 360\<close>\<close>

lemma py_mod360_nonneg: "0 \<le> py_mod360 x"
proof -
  have "of_int \<lfloor>x / 360\<rfloor> \<le> x / 360" by (rule of_int_floor_le)
  then show ?thesis unfolding py_mod360_def by simp
qed

lemma py_mod360_less: "py_mod360 x < 360"
proof -
  define f :: real where "f = of_int \<lfloor>x / 360\<rfloor>"
  have "x / 360 < f + 1" unfolding f_def by linarith
  then have "x < (f + 1) * 360" by (simp add: pos_divide_less_eq)
  then show ?thesis unfolding py_mod360_def f_def by (simp add: algebra_simps)
qed



subsection \<open>The invariant holds in every registry\<close>

lemma env_ok_init: "env_ok init_env"
  by (simp add: env_ok_def init_env_def)

lemma list_all_update:
  "list_all P al \<Longrightarrow> P (k, v) \<Longrightarrow> list_all P (AList.update k v al)"
  by (induction al) (auto)

lemma env_ok_register_character_position:
  "env_ok s \<Longrightarrow> env_ok (register_character_position n a d s)"
  unfolding env_ok_def register_character_position_def
  by (simp add: distinct_update list_all_update py_mod360_nonneg py_mod360_less)

lemma env_ok_register_camera_angle:
  "env_ok s \<Longrightarrow> env_ok (register_camera_angle i a f s)"
  unfolding env_ok_def register_camera_angle_def
  by (simp add: distinct_update list_all_update py_mod360_nonneg py_mod360_less)



subsection \<open>Lookups after a registration\<close>

lemma map_of_register_character_position:
  "map_of (character_positions (register_character_position n a d s)) =
     (map_of (character_positions s))(n \<mapsto> \<lparr>angle = py_mod360 a, depth = d\<rparr>)"
  by (simp add: register_character_position_def update_conv')

lemma map_of_register_camera_angle:
  "map_of (camera_angles (register_camera_angle i a f s)) =
     (map_of (camera_angles s))(i \<mapsto> \<lparr>cam_angle = py_mod360 a, fov = f,
        visible_range = (py_mod360 (a - f / 2), py_mod360 (a + f / 2))\<rparr>)"
  by (simp add: register_camera_angle_def update_conv')

lemma character_positions_register_camera_angle:
  "character_positions (register_camera_angle i a f s) = character_positions s"
  by (simp add: register_camera_angle_def)

lemma camera_angles_register_character_position:
  "camera_angles (register_character_position n a d s) = camera_angles s"
  by (simp add: register_character_position_def)

subsection \<open>The visibility loop\<close>

lemma visible_loop_filter:
  "visible_loop st en ps acc = acc @ map fst (filter (\<lambda>(n, p). in_view st en (angle p)) ps)"
  by (induction st en ps acc rule: visible_loop.induct) (auto simp: in_view_def Let_def)

lemma get_visible_characters_Some:
  "map_of (camera_angles s) i = Some c \<Longrightarrow>
   get_visible_characters s i =
     map fst (filter (\<lambda>(n, p). in_view (fst (visible_range c)) (snd (visible_range c)) (angle p))
       (character_positions s))"
  by (simp add: get_visible_characters_def visible_loop_filter split: prod.splits)

lemma distinct_keys_lookup:
  "distinct (map fst al) \<Longrightarrow> (k, v) \<in> set al \<Longrightarrow> (k, v') \<in> set al \<Longrightarrow> v = v'"
  by (metis map_of_is_SomeI option.inject)

lemma visible_loop_angles_only:
  "visible_loop st en ps acc =
     acc @ map fst (filter (\<lambda>(n, a). in_view st en a) (map (\<lambda>(n, p). (n, angle p)) ps))"
  by (induction st en ps acc rule: visible_loop.induct) (auto simp: in_view_def Let_def)

subsection \<open>Pixel bounds and the Pillow operations\<close>

lemma py_int_nonneg: "0 \<le> x \<Longrightarrow> py_int x = \<lfloor>x\<rfloor>"
  by (simp add: py_int_def)







section \<open>The claims\<close>

text \<open>
  \<^bold>\<open>C1.\<close> For a registered camera with visible range \<open>(start, end)\<close> and a registered
  entity, the entity's name is in the result of \<open>get_visible_characters\<close> exactly when the
  two-branch test holds: \<open>start \<le> angle \<le> end\<close> if \<open>start \<le> end\<close>, and
  \<open>angle \<ge> start \<or> angle \<le> end\<close> otherwise. An entity whose angle is \<open>start\<close> or
  \<open>end\<close> is reported visible.
\<close>

theorem visible_iff_interval_test:
  assumes ok: "env_ok s"
    and cam: "map_of (camera_angles s) scene_id = Some c"
    and rng: "visible_range c = (start_angle, end_angle)"
    and ent: "map_of (character_positions s) char_name = Some p"
  shows "(char_name \<in> set (get_visible_characters s scene_id) \<longleftrightarrow>
            (if start_angle \<le> end_angle
             then start_angle \<le> angle p \<and> angle p \<le> end_angle
             else angle p \<ge> start_angle \<or> angle p \<le> end_angle))
         \<and> (angle p = start_angle \<or> angle p = end_angle
              \<longrightarrow> char_name \<in> set (get_visible_characters s scene_id))"
proof -
  have d: "distinct (map fst (character_positions s))" using ok by (simp add: env_ok_def)
  have mem: "(char_name, p) \<in> set (character_positions s)" using ent by (rule map_of_SomeD)
  have "char_name \<in> set (get_visible_characters s scene_id) \<longleftrightarrow>
          in_view start_angle end_angle (angle p)"
  proof
    assume "char_name \<in> set (get_visible_characters s scene_id)"
    then obtain p' where p': "(char_name, p') \<in> set (character_positions s)"
        "in_view start_angle end_angle (angle p')"
      using cam rng by (auto simp: get_visible_characters_Some)
    from distinct_keys_lookup [OF d mem p'(1)] p'(2)
    show "in_view start_angle end_angle (angle p)" by simp
  next
    assume "in_view start_angle end_angle (angle p)"
    with mem show "char_name \<in> set (get_visible_characters s scene_id)"
      using cam rng by (force simp: get_visible_characters_Some)
  qed
  then show ?thesis by (auto simp: in_view_def)
qed

theorem visible_iff_interval_test_witness:
  "env_ok (register_character_position ''hero'' 330 1 (register_camera_angle ''scene_1'' 0 60 init_env))
   \<and> map_of (camera_angles
        (register_character_position ''hero'' 330 1 (register_camera_angle ''scene_1'' 0 60 init_env)))
        ''scene_1'' = Some \<lparr>cam_angle = 0, fov = 60, visible_range = (330, 30)\<rparr>
   \<and> map_of (character_positions
        (register_character_position ''hero'' 330 1 (register_camera_angle ''scene_1'' 0 60 init_env)))
        ''hero'' = Some \<lparr>angle = 330, depth = 1\<rparr>
   \<and> ''hero'' \<in> set (get_visible_characters
        (register_character_position ''hero'' 330 1 (register_camera_angle ''scene_1'' 0 60 init_env))
        ''scene_1'')"
proof -
  let ?s = "register_character_position ''hero'' 330 1 (register_camera_angle ''scene_1'' 0 60 init_env)"
  let ?c = "\<lparr>cam_angle = 0, fov = 60, visible_range = (330, 30)\<rparr>"
  let ?p = "\<lparr>angle = 330, depth = 1\<rparr>"
  have ok: "env_ok ?s"
    by (intro env_ok_register_character_position env_ok_register_camera_angle env_ok_init)
  have cam: "map_of (camera_angles ?s) ''scene_1'' = Some ?c"
    by (simp add: camera_angles_register_character_position map_of_register_camera_angle py_mod360_def)
  have rng: "visible_range ?c = (330, 30)" by simp
  have ent: "map_of (character_positions ?s) ''hero'' = Some ?p"
    by (simp add: map_of_register_character_position py_mod360_def)
  from visible_iff_interval_test [OF ok cam rng ent]
  have "''hero'' \<in> set (get_visible_characters ?s ''scene_1'')" by simp
  with ok cam ent show ?thesis by blast
qed






text \<open>
  \<^bold>\<open>C4, as amended.\<close> For a camera id that is not registered,
  \<open>get_visible_characters\<close> returns the empty list.
\<close>

theorem unregistered_camera_returns_empty:
  "map_of (camera_angles s) scene_id = None \<Longrightarrow> get_visible_characters s scene_id = []"
  by (simp add: get_visible_characters_def)

theorem unregistered_camera_returns_empty_witness:
  "map_of (camera_angles (register_character_position ''hero'' 10 1 init_env)) ''scene_1'' = None
   \<and> get_visible_characters (register_character_position ''hero'' 10 1 init_env) ''scene_1'' = []"
proof -
  have h: "map_of (camera_angles (register_character_position ''hero'' 10 1 init_env)) ''scene_1'' = None"
    by (simp add: camera_angles_register_character_position init_env_def)
  from h unregistered_camera_returns_empty [OF h] show ?thesis by simp
qed

text \<open>
  \<^bold>\<open>C4 as stated fails.\<close> In one registry, the query for the unregistered id
  \<open>scene_2\<close> and the query for the registered camera \<open>scene_1\<close>, which sees no entity,
  return the same value.
\<close>

theorem unregistered_camera_indistinguishable:
  "map_of (camera_angles
       (register_camera_angle ''scene_1'' 0 60 (register_character_position ''hero'' 180 1 init_env)))
     ''scene_1'' \<noteq> None
   \<and> map_of (camera_angles
       (register_camera_angle ''scene_1'' 0 60 (register_character_position ''hero'' 180 1 init_env)))
     ''scene_2'' = None
   \<and> get_visible_characters
       (register_camera_angle ''scene_1'' 0 60 (register_character_position ''hero'' 180 1 init_env))
       ''scene_2''
     = get_visible_characters
       (register_camera_angle ''scene_1'' 0 60 (register_character_position ''hero'' 180 1 init_env))
       ''scene_1''"
  by (simp add: get_visible_characters_def register_camera_angle_def
      register_character_position_def init_env_def py_mod360_def)

text \<open>
  \<^bold>\<open>C5: the code at a field of view of 360 degrees.\<close> Both ends of the visible range
  of a camera at angle 0 with field of view 360 are 180, so the non-wrapping branch is taken
  and only an entity at exactly 180 degrees would pass: the entity at angle 0 is not reported.
\<close>

theorem full_circle_camera_misses_entity:
  "map_of (camera_angles
       (register_camera_angle ''scene_1'' 0 360 (register_character_position ''hero'' 0 1 init_env)))
     ''scene_1'' = Some \<lparr>cam_angle = 0, fov = 360, visible_range = (180, 180)\<rparr>
   \<and> map_of (character_positions
       (register_camera_angle ''scene_1'' 0 360 (register_character_position ''hero'' 0 1 init_env)))
     ''hero'' = Some \<lparr>angle = 0, depth = 1\<rparr>
   \<and> get_visible_characters
       (register_camera_angle ''scene_1'' 0 360 (register_character_position ''hero'' 0 1 init_env))
       ''scene_1'' = []"
  by (simp add: get_visible_characters_def register_camera_angle_def
      register_character_position_def init_env_def py_mod360_def)




text \<open>
  \<^bold>\<open>C8.\<close> Registering the same camera twice with the same parameters gives the same
  registry as registering it once; registering an id again with new parameters gives the
  registry that the second registration alone gives, so nothing of the first record is left,
  and the lookup returns the record of the new parameters. The same holds for entities.
\<close>

theorem reregistration_replaces:
  "register_camera_angle i a f (register_camera_angle i a f s) = register_camera_angle i a f s
   \<and> register_camera_angle i a2 f2 (register_camera_angle i a1 f1 s) = register_camera_angle i a2 f2 s
   \<and> map_of (camera_angles (register_camera_angle i a2 f2 (register_camera_angle i a1 f1 s))) i
       = Some \<lparr>cam_angle = py_mod360 a2, fov = f2,
               visible_range = (py_mod360 (a2 - f2 / 2), py_mod360 (a2 + f2 / 2))\<rparr>
   \<and> register_character_position n b2 d2 (register_character_position n b1 d1 s)
       = register_character_position n b2 d2 s
   \<and> map_of (character_positions
         (register_character_position n b2 d2 (register_character_position n b1 d1 s))) n
       = Some \<lparr>angle = py_mod360 b2, depth = d2\<rparr>"
  by (simp add: map_of_register_camera_angle map_of_register_character_position)
     (simp add: register_camera_angle_def register_character_position_def update_last)

text \<open>
  \<^bold>\<open>C9.\<close> Two registries with the same cameras and the same entity names and angles,
  whatever their depths, give the same result of \<open>get_visible_characters\<close> for every
  camera id.
\<close>

theorem depth_does_not_influence_visibility:
  assumes "map (\<lambda>(n, p). (n, angle p)) (character_positions s1)
             = map (\<lambda>(n, p). (n, angle p)) (character_positions s2)"
    and "camera_angles s1 = camera_angles s2"
  shows "get_visible_characters s1 scene_id = get_visible_characters s2 scene_id"
  using assms
  by (simp add: get_visible_characters_def visible_loop_angles_only split: option.splits prod.splits)

theorem depth_does_not_influence_visibility_witness:
  "map (\<lambda>(n, p). (n, angle p)) (character_positions
        (register_character_position ''hero'' 10 1 (register_camera_angle ''scene_1'' 0 60 init_env)))
     = map (\<lambda>(n, p). (n, angle p)) (character_positions
        (register_character_position ''hero'' 10 0 (register_camera_angle ''scene_1'' 0 60 init_env)))
   \<and> camera_angles (register_character_position ''hero'' 10 1 (register_camera_angle ''scene_1'' 0 60 init_env))
     = camera_angles (register_character_position ''hero'' 10 0 (register_camera_angle ''scene_1'' 0 60 init_env))
   \<and> register_character_position ''hero'' 10 1 (register_camera_angle ''scene_1'' 0 60 init_env)
     \<noteq> register_character_position ''hero'' 10 0 (register_camera_angle ''scene_1'' 0 60 init_env)
   \<and> get_visible_characters
        (register_character_position ''hero'' 10 1 (register_camera_angle ''scene_1'' 0 60 init_env)) ''scene_1''
     = get_visible_characters
        (register_character_position ''hero'' 10 0 (register_camera_angle ''scene_1'' 0 60 init_env)) ''scene_1''"
proof -
  let ?s1 = "register_character_position ''hero'' 10 1 (register_camera_angle ''scene_1'' 0 60 init_env)"
  let ?s2 = "register_character_position ''hero'' 10 0 (register_camera_angle ''scene_1'' 0 60 init_env)"
  have a: "map (\<lambda>(n, p). (n, angle p)) (character_positions ?s1)
            = map (\<lambda>(n, p). (n, angle p)) (character_positions ?s2)"
    by (simp add: register_character_position_def register_camera_angle_def init_env_def)
  have c: "camera_angles ?s1 = camera_angles ?s2"
    by (simp add: camera_angles_register_character_position)
  have d: "?s1 \<noteq> ?s2"
    by (simp add: register_character_position_def register_camera_angle_def init_env_def)
  from depth_does_not_influence_visibility [OF a c, of "''scene_1''"] a c d
  show ?thesis by blast
qed

text \<open>
  \<^bold>\<open>C10.\<close> \<open>register_camera_angle\<close> leaves the entities and every other camera
  record unchanged; \<open>register_character_position\<close> leaves the cameras and every other
  entity record unchanged.
\<close>

theorem registrations_independent:
  "character_positions (register_camera_angle i a f s) = character_positions s
   \<and> (j \<noteq> i \<longrightarrow> map_of (camera_angles (register_camera_angle i a f s)) j
                    = map_of (camera_angles s) j)
   \<and> camera_angles (register_character_position n b d s) = camera_angles s
   \<and> (m \<noteq> n \<longrightarrow> map_of (character_positions (register_character_position n b d s)) m
                    = map_of (character_positions s) m)"
  by (simp add: map_of_register_camera_angle map_of_register_character_position
      character_positions_register_camera_angle camera_angles_register_character_position)

theorem registrations_independent_witness:
  "''scene_1'' \<noteq> ''scene_2'' \<and> ''hero'' \<noteq> ''extra''
   \<and> character_positions (register_camera_angle ''scene_2'' 90 60
        (register_character_position ''hero'' 10 1 (register_camera_angle ''scene_1'' 0 60 init_env)))
     = character_positions
        (register_character_position ''hero'' 10 1 (register_camera_angle ''scene_1'' 0 60 init_env))
   \<and> map_of (camera_angles (register_camera_angle ''scene_2'' 90 60
        (register_character_position ''hero'' 10 1 (register_camera_angle ''scene_1'' 0 60 init_env))))
        ''scene_1''
     = map_of (camera_angles
        (register_character_position ''hero'' 10 1 (register_camera_angle ''scene_1'' 0 60 init_env)))
        ''scene_1''
   \<and> camera_angles (register_character_position ''extra'' 200 0
        (register_character_position ''hero'' 10 1 (register_camera_angle ''scene_1'' 0 60 init_env)))
     = camera_angles
        (register_character_position ''hero'' 10 1 (register_camera_angle ''scene_1'' 0 60 init_env))
   \<and> map_of (character_positions (register_character_position ''extra'' 200 0
        (register_character_position ''hero'' 10 1 (register_camera_angle ''scene_1'' 0 60 init_env))))
        ''hero''
     = map_of (character_positions
        (register_character_position ''hero'' 10 1 (register_camera_angle ''scene_1'' 0 60 init_env)))
        ''hero''"
proof -
  let ?s = "register_character_position ''hero'' 10 1 (register_camera_angle ''scene_1'' 0 60 init_env)"
  have n: "''scene_1'' \<noteq> ''scene_2''" "''hero'' \<noteq> ''extra''" by simp_all
  from registrations_independent
    [of "''scene_2''" 90 60 ?s "''scene_1''" "''extra''" 200 0 "''hero''"] n
  show ?thesis by blast
qed

end
